theory Spec2Isabelle
  imports Complex_Main
begin

section \<open>The state-switching core of the game (engine/core.py)\<close>

text \<open>
  The class \<open>Core\<close> owns an optional world, a GUI state, an optional in-game state and
  the reference to the state that is active. Python objects are shared by reference, so
  the objects that \<open>Core\<close> constructs live in an object store and the fields of
  \<open>Core\<close> hold references into it. The classes \<open>World\<close>, \<open>GuiState\<close> and
  \<open>InGameState\<close> and the window library are collaborators whose code is elsewhere:
  a method call on one of them is recorded, with its receiver and its arguments, in a
  trace of calls, and a value that \<open>Core\<close> returns from such a call is named by the call.
  The collaborators are taken not to call back into \<open>Core\<close> and not to raise.
\<close>

subsection \<open>Values\<close>

type_synonym ref = nat

text \<open>Opaque script objects: a GUI screen, a sprite script, a sprite specification.\<close>

datatype gui = GUI nat

datatype script = Script nat

datatype sprite_spec = Sprite_spec nat

datatype pyval = PyNone | PyBool bool | PyInt int | PyStr string

text \<open>\<open>Dict[str, Any]\<close>.\<close>

type_synonym player_state = "string \<rightharpoonup> pyval"

text \<open>
  \<open>spec.GameSpec\<close>: \<open>Core\<close> reads one attribute of it, the dictionary \<open>sprites\<close>,
  by subscription.
\<close>

record game_spec =
  sprites :: "string \<rightharpoonup> sprite_spec"

text \<open>The argument of \<open>on_update\<close> is a Python float that is only passed on.\<close>

type_synonym pyfloat = real

subsection \<open>Constants\<close>

definition SCREEN_WIDTH :: int where
  "SCREEN_WIDTH = 1000"

definition SCREEN_HEIGHT :: int where
  "SCREEN_HEIGHT = 650"

definition SCREEN_TITLE :: string where
  "SCREEN_TITLE = ''OSSU Game Project''"

subsection \<open>Errors and results\<close>

text \<open>
  \<open>GameNotInitializedError\<close> is the exception class of the module; \<open>KeyError\<close> is what
  subscription of a dictionary raises at a key it does not have.
\<close>

datatype error = GameNotInitializedError | KeyError string

subsection \<open>The object store and the trace of calls\<close>

text \<open>
  An object of the store is described by the arguments of its constructor (the
  \<open>Core\<close> itself, passed as \<open>self\<close>, is left out):
  \<open>World(self, self._spec, self.initial_player_state)\<close>,
  \<open>GuiState(self, self.initial_gui)\<close> and
  \<open>InGameState(self.world, (self.width, self.height), self.ingame_gui)\<close>.
  A GUI state has, in addition, the GUI screen it displays at the moment.
\<close>

datatype obj =
    is_World: World_obj game_spec player_state
  | is_GuiState: GuiState_obj gui gui
  | is_InGameState: InGameState_obj ref "int \<times> int" "gui option"

datatype call =
    Gui_setup ref
  | Set_gui ref gui
  | Ingame_setup ref
  | Load_region ref string string
  | World_create_sprite ref sprite_spec string "int \<times> int" "script option"
  | World_get_key_points ref "string option"
  | World_get_player_state ref
  | World_set_player_state ref player_state
  | Window_clear
  | View_on_draw ref
  | Controller_on_key_press ref int int
  | Controller_on_key_release ref int int
  | Controller_on_mouse_motion ref int int int int
  | Controller_on_mouse_release ref int int int int
  | State_on_update ref pyfloat
  | Arcade_run

text \<open>
  What a method of \<open>Core\<close> returns: \<open>None\<close>, or the value that a call on a
  collaborator returned.
\<close>

datatype ret = Ret_None | Ret_of call

text \<open>
  The fields of \<open>Core\<close>. \<open>width\<close>, \<open>height\<close> and \<open>title\<close> are the arguments given to
  the constructor of the window; \<open>spec\<close> is the attribute \<open>_spec\<close>. \<open>heap\<close> is the
  object store and \<open>calls\<close> the trace of calls on collaborators, oldest first.
\<close>

record core =
  width :: int
  height :: int
  title :: string
  spec :: game_spec
  world :: "ref option"
  initial_gui :: gui
  ingame_gui :: "gui option"
  initial_player_state :: player_state
  gui_state :: ref
  ingame_state :: "ref option"
  current_state :: "ref option"
  heap :: "obj list"
  calls :: "call list"

text \<open>
  A method runs from a state to a result and a state. An exception leaves the state as
  it is at the \<open>raise\<close>.
\<close>

type_synonym outcome = "(error + ret) \<times> core"

definition deref :: "core \<Rightarrow> ref \<Rightarrow> obj option" where
  "deref s r = (if r < length (heap s) then Some (heap s ! r) else None)"

definition alloc :: "obj \<Rightarrow> core \<Rightarrow> ref \<times> core" where
  "alloc ob s = (length (heap s), s\<lparr>heap := heap s @ [ob]\<rparr>)"

definition record_call :: "call \<Rightarrow> core \<Rightarrow> core" where
  "record_call c s = s\<lparr>calls := calls s @ [c]\<rparr>"

definition count_worlds :: "core \<Rightarrow> nat" where
  "count_worlds s = length (filter is_World (heap s))"

definition count_ingame_states :: "core \<Rightarrow> nat" where
  "count_ingame_states s = length (filter is_InGameState (heap s))"

subsection \<open>The collaborating states\<close>

text \<open>
  Modelled from the spec: \<open>GuiState.set_gui\<close> (engine/gui/game_state.py is not among
  the sources). "tells it to display gui": the GUI state displays the given screen from
  then on.
\<close>

definition GuiState_set_gui :: "ref \<Rightarrow> gui \<Rightarrow> core \<Rightarrow> core" where
  "GuiState_set_gui r g s =
     record_call (Set_gui r g)
       (case deref s r of
          Some (GuiState_obj i _) \<Rightarrow> s\<lparr>heap := (heap s)[r := GuiState_obj i g]\<rparr>
        | _ \<Rightarrow> s)"

text \<open>
  Modelled from the spec: \<open>GuiState.setup\<close> (engine/gui/game_state.py is not among the
  sources). "resets GUI state to initial configuration": the GUI state displays the
  screen it was constructed with.
\<close>

definition GuiState_setup :: "ref \<Rightarrow> core \<Rightarrow> core" where
  "GuiState_setup r s =
     record_call (Gui_setup r)
       (case deref s r of
          Some (GuiState_obj i _) \<Rightarrow> s\<lparr>heap := (heap s)[r := GuiState_obj i i]\<rparr>
        | _ \<Rightarrow> s)"

text \<open>
  Modelled from the spec: the attributes \<open>view\<close> and \<open>controller\<close> of a game state
  (engine/game_state.py and its two subclasses are not among the sources). "GuiState:
  wraps a GUI screen's view+controller"; "InGameState: wraps the world's
  view+controller".
\<close>

datatype view = Gui_view gui | Ingame_view ref

datatype controller = Gui_controller gui | Ingame_controller ref

definition state_view :: "core \<Rightarrow> ref \<Rightarrow> view option" where
  "state_view s r =
     (case deref s r of
        Some (GuiState_obj _ g) \<Rightarrow> Some (Gui_view g)
      | Some (InGameState_obj w _ _) \<Rightarrow> Some (Ingame_view w)
      | _ \<Rightarrow> None)"

definition state_controller :: "core \<Rightarrow> ref \<Rightarrow> controller option" where
  "state_controller s r =
     (case deref s r of
        Some (GuiState_obj _ g) \<Rightarrow> Some (Gui_controller g)
      | Some (InGameState_obj w _ _) \<Rightarrow> Some (Ingame_controller w)
      | _ \<Rightarrow> None)"

subsection \<open>Construction\<close>

text \<open>
  \<open>Core.__init__\<close>. The arguments \<open>initial_gui\<close> and \<open>ingame_gui\<close> of the source are
  callables that build a GUI screen from the \<open>Core\<close>; here they are the screens built,
  \<open>ingame_gui\<close> being \<open>None\<close> when no callable is given. The GUI state is the first
  object of the store.
\<close>

definition Core_init :: "gui \<Rightarrow> game_spec \<Rightarrow> player_state \<Rightarrow> gui option \<Rightarrow> core" where
  "Core_init initial_gui_built game_spec_arg initial_player_state_arg ingame_gui_built =
     \<lparr> width = SCREEN_WIDTH,
       height = SCREEN_HEIGHT,
       title = SCREEN_TITLE,
       spec = game_spec_arg,
       world = None,
       initial_gui = initial_gui_built,
       ingame_gui = ingame_gui_built,
       initial_player_state = initial_player_state_arg,
       gui_state = 0,
       ingame_state = None,
       current_state = None,
       heap = [GuiState_obj initial_gui_built initial_gui_built],
       calls = [] \<rparr>"

subsection \<open>Operations\<close>

text \<open>\<open>Core.setup\<close> (the name is a keyword of the prover).\<close>

definition core_setup :: "core \<Rightarrow> outcome" where
  "core_setup s = (Inr Ret_None, GuiState_setup (gui_state s) s)"

text \<open>
  \<open>Core.start_game\<close>. \<open>w\<close> is the value of \<open>self.world\<close> after the first \<open>if\<close>, which
  the constructor of the in-game state receives.
\<close>

definition start_game :: "core \<Rightarrow> outcome" where
  "start_game s =
     (let (w, s1) =
            (case world s of
               None \<Rightarrow>
                 (let (r, t) = alloc (World_obj (spec s) (initial_player_state s)) s
                  in (r, t\<lparr>world := Some r\<rparr>))
             | Some r \<Rightarrow> (r, s));
          s2 =
            (case ingame_state s1 of
               None \<Rightarrow>
                 (let (r, t) =
                        alloc (InGameState_obj w (width s1, height s1) (ingame_gui s1)) s1
                  in record_call (Ingame_setup r) (t\<lparr>ingame_state := Some r\<rparr>))
             | Some _ \<Rightarrow> s1)
      in (Inr Ret_None, s2\<lparr>current_state := ingame_state s2\<rparr>))"

definition change_region :: "string \<Rightarrow> string \<Rightarrow> core \<Rightarrow> outcome" where
  "change_region name start_location s =
     (case world s of
        None \<Rightarrow> (Inl GameNotInitializedError, s)
      | Some w \<Rightarrow> (Inr Ret_None, record_call (Load_region w name start_location) s))"

definition show_gui :: "gui \<Rightarrow> core \<Rightarrow> outcome" where
  "show_gui g s =
     (Inr Ret_None, (GuiState_set_gui (gui_state s) g s)\<lparr>current_state := Some (gui_state s)\<rparr>)"

definition create_sprite ::
    "string \<Rightarrow> string \<Rightarrow> int \<times> int \<Rightarrow> script option \<Rightarrow> core \<Rightarrow> outcome" where
  "create_sprite spec_name name start_location scr s =
     (case world s of
        None \<Rightarrow> (Inl GameNotInitializedError, s)
      | Some w \<Rightarrow>
          (case sprites (spec s) spec_name of
             None \<Rightarrow> (Inl (KeyError spec_name), s)
           | Some sp \<Rightarrow>
               (Inr Ret_None, record_call (World_create_sprite w sp name start_location scr) s)))"

definition get_key_points :: "string option \<Rightarrow> core \<Rightarrow> outcome" where
  "get_key_points name s =
     (case world s of
        None \<Rightarrow> (Inl GameNotInitializedError, s)
      | Some w \<Rightarrow>
          (Inr (Ret_of (World_get_key_points w name)),
           record_call (World_get_key_points w name) s))"

text \<open>The property \<open>player_state\<close>: its getter and its setter.\<close>

definition player_state_get :: "core \<Rightarrow> outcome" where
  "player_state_get s =
     (case world s of
        None \<Rightarrow> (Inl GameNotInitializedError, s)
      | Some w \<Rightarrow>
          (Inr (Ret_of (World_get_player_state w)), record_call (World_get_player_state w) s))"

definition player_state_set :: "player_state \<Rightarrow> core \<Rightarrow> outcome" where
  "player_state_set v s =
     (case world s of
        None \<Rightarrow> (Inl GameNotInitializedError, s)
      | Some w \<Rightarrow> (Inr Ret_None, record_call (World_set_player_state w v) s))"

text \<open>Statements in sequence: an exception of the first ends the method.\<close>

definition and_then :: "outcome \<Rightarrow> (core \<Rightarrow> outcome) \<Rightarrow> outcome" where
  "and_then r f = (case r of (Inl e, s) \<Rightarrow> (Inl e, s) | (Inr _, s) \<Rightarrow> f s)"

text \<open>
  \<open>Core.run\<close>: \<open>arcade.run()\<close> is the event loop of the window library; the callbacks it
  makes are the operations below.
\<close>

definition run :: "core \<Rightarrow> outcome" where
  "run s =
     and_then (and_then (core_setup s) (\<lambda>s1. show_gui (initial_gui s1) s1))
       (\<lambda>s2. (Inr Ret_None, record_call Arcade_run s2))"

definition on_draw :: "core \<Rightarrow> outcome" where
  "on_draw s =
     (case current_state s of
        None \<Rightarrow> (Inl GameNotInitializedError, s)
      | Some c \<Rightarrow> (Inr Ret_None, record_call (View_on_draw c) (record_call Window_clear s)))"

definition on_key_press :: "int \<Rightarrow> int \<Rightarrow> core \<Rightarrow> outcome" where
  "on_key_press symbol modifiers s =
     (case current_state s of
        None \<Rightarrow> (Inl GameNotInitializedError, s)
      | Some c \<Rightarrow> (Inr Ret_None, record_call (Controller_on_key_press c symbol modifiers) s))"

definition on_key_release :: "int \<Rightarrow> int \<Rightarrow> core \<Rightarrow> outcome" where
  "on_key_release symbol modifiers s =
     (case current_state s of
        None \<Rightarrow> (Inl GameNotInitializedError, s)
      | Some c \<Rightarrow> (Inr Ret_None, record_call (Controller_on_key_release c symbol modifiers) s))"

definition on_mouse_motion :: "int \<Rightarrow> int \<Rightarrow> int \<Rightarrow> int \<Rightarrow> core \<Rightarrow> outcome" where
  "on_mouse_motion x y dx dy s =
     (case current_state s of
        None \<Rightarrow> (Inl GameNotInitializedError, s)
      | Some c \<Rightarrow> (Inr Ret_None, record_call (Controller_on_mouse_motion c x y dx dy) s))"

definition on_mouse_release :: "int \<Rightarrow> int \<Rightarrow> int \<Rightarrow> int \<Rightarrow> core \<Rightarrow> outcome" where
  "on_mouse_release x y button modifiers s =
     (case current_state s of
        None \<Rightarrow> (Inl GameNotInitializedError, s)
      | Some c \<Rightarrow>
          (Inr Ret_None, record_call (Controller_on_mouse_release c x y button modifiers) s))"

definition on_update :: "pyfloat \<Rightarrow> core \<Rightarrow> outcome" where
  "on_update delta_time s =
     (case current_state s of
        None \<Rightarrow> (Inl GameNotInitializedError, s)
      | Some c \<Rightarrow> (Inr Ret_None, record_call (State_on_update c delta_time) s))"

subsection \<open>Sequences of operations\<close>

datatype operation =
    Setup
  | Start_game
  | Change_region string string
  | Show_gui gui
  | Create_sprite string string "int \<times> int" "script option"
  | Get_key_points "string option"
  | Player_state_get
  | Player_state_set player_state
  | Run
  | On_draw
  | On_key_press int int
  | On_key_release int int
  | On_mouse_motion int int int int
  | On_mouse_release int int int int
  | On_update pyfloat

fun step :: "operation \<Rightarrow> core \<Rightarrow> outcome" where
  "step Setup s = core_setup s"
| "step Start_game s = start_game s"
| "step (Change_region name start_location) s = change_region name start_location s"
| "step (Show_gui g) s = show_gui g s"
| "step (Create_sprite spec_name name start_location scr) s =
     create_sprite spec_name name start_location scr s"
| "step (Get_key_points name) s = get_key_points name s"
| "step Player_state_get s = player_state_get s"
| "step (Player_state_set v) s = player_state_set v s"
| "step Run s = run s"
| "step On_draw s = on_draw s"
| "step (On_key_press symbol modifiers) s = on_key_press symbol modifiers s"
| "step (On_key_release symbol modifiers) s = on_key_release symbol modifiers s"
| "step (On_mouse_motion x y dx dy) s = on_mouse_motion x y dx dy s"
| "step (On_mouse_release x y button modifiers) s = on_mouse_release x y button modifiers s"
| "step (On_update delta_time) s = on_update delta_time s"

text \<open>
  The state after a sequence of calls, each made in the state the one before left,
  whether it returned or raised.
\<close>

fun exec :: "operation list \<Rightarrow> core \<Rightarrow> core" where
  "exec [] s = s"
| "exec (x # xs) s = exec xs (snd (step x s))"

subsection \<open>An example\<close>

text \<open>A game with one sprite specification, before and after \<open>start_game\<close>.\<close>

definition example_spec :: game_spec where
  "example_spec = \<lparr>sprites = [''hero'' \<mapsto> Sprite_spec 0]\<rparr>"

definition example_core :: core where
  "example_core = Core_init (GUI 0) example_spec [''hp'' \<mapsto> PyInt 10] None"

definition example_started :: core where
  "example_started = snd (start_game example_core)"

subsection \<open>What holds in every state reached from construction\<close>

text \<open>
  The GUI state is an object of the store; the store has a world exactly when the field
  \<open>world\<close> refers to it, and an in-game state exactly when the field \<open>ingame_state\<close>
  refers to it, constructed with that world; and \<open>current_state\<close> is \<open>None\<close>, the GUI
  state or the in-game state.
\<close>

definition invar :: "core \<Rightarrow> bool" where
  "invar s \<longleftrightarrow>
     (gui_state s < length (heap s) \<and> is_GuiState (heap s ! gui_state s))
   \<and> (case world s of
        None \<Rightarrow> count_worlds s = 0 \<and> ingame_state s = None
      | Some w \<Rightarrow> count_worlds s = 1 \<and> w < length (heap s)
          \<and> heap s ! w = World_obj (spec s) (initial_player_state s))
   \<and> (case ingame_state s of
        None \<Rightarrow> count_ingame_states s = 0
      | Some r \<Rightarrow> count_ingame_states s = 1 \<and> r < length (heap s)
          \<and> (\<exists>w. world s = Some w \<and> heap s ! r = InGameState_obj w (width s, height s) (ingame_gui s)))
   \<and> (current_state s = None \<or> current_state s = Some (gui_state s)
        \<or> (current_state s = ingame_state s))"

section \<open>Auxiliary facts\<close>

lemmas callback_defs = on_draw_def on_key_press_def on_key_release_def on_mouse_motion_def
  on_mouse_release_def on_update_def

lemmas world_op_defs = change_region_def create_sprite_def get_key_points_def
  player_state_get_def player_state_set_def

lemmas example_defs = example_core_def example_spec_def example_started_def Core_init_def
  SCREEN_WIDTH_def SCREEN_HEIGHT_def SCREEN_TITLE_def

lemma invar_init: "invar (Core_init ig sp ps igg)"
  by (simp add: invar_def Core_init_def count_worlds_def count_ingame_states_def)

lemma invar_record_call [simp]: "invar (record_call c s) = invar s"
  by (simp add: invar_def record_call_def count_worlds_def count_ingame_states_def split: option.splits)

lemma invar_start_game: "invar s \<Longrightarrow> invar (snd (start_game s))"
  by (auto simp: invar_def start_game_def alloc_def record_call_def count_worlds_def
      count_ingame_states_def Let_def nth_append split: option.splits)

lemma filter_update_same:
  "i < length xs \<Longrightarrow> P (xs ! i) = P y \<Longrightarrow> length (filter P (xs[i := y])) = length (filter P xs)"
proof (induction xs arbitrary: i)
  case Nil
  then show ?case by simp
next
  case (Cons x xs)
  then show ?case by (cases i) auto
qed

lemma invar_heap_update:
  assumes "invar s" and "r < length (heap s)" and "heap s ! r = GuiState_obj i g"
  shows "invar (s\<lparr>heap := (heap s)[r := GuiState_obj i g']\<rparr>)"
proof -
  have w: "length (filter is_World ((heap s)[r := GuiState_obj i g'])) = length (filter is_World (heap s))"
    using assms(2,3) by (intro filter_update_same) simp_all
  have g: "length (filter is_InGameState ((heap s)[r := GuiState_obj i g'])) = length (filter is_InGameState (heap s))"
    using assms(2,3) by (intro filter_update_same) simp_all
  have n: "(heap s)[r := GuiState_obj i g'] ! k = ob"
    if "k < length (heap s)" "heap s ! k = ob" "\<not> is_GuiState ob" for k ob
    using that assms(3) by (cases "k = r") auto
  show ?thesis
    using assms w g
    by (auto simp: invar_def count_worlds_def count_ingame_states_def nth_list_update split: option.splits)
qed

lemma invar_set_gui: "invar s \<Longrightarrow> invar (GuiState_set_gui r g s)"
  by (auto simp: GuiState_set_gui_def deref_def invar_heap_update split: option.splits obj.splits)

lemma invar_gui_setup: "invar s \<Longrightarrow> invar (GuiState_setup r s)"
  by (auto simp: GuiState_setup_def deref_def invar_heap_update split: option.splits obj.splits)

lemma gui_state_set_gui [simp]: "gui_state (GuiState_set_gui r g s) = gui_state s"
  by (simp add: GuiState_set_gui_def record_call_def split: option.splits obj.splits)

lemma invar_switch_gui: "invar t \<Longrightarrow> invar (t\<lparr>current_state := Some (gui_state t)\<rparr>)"
  by (simp add: invar_def count_worlds_def count_ingame_states_def split: option.splits)

lemma invar_show_gui: "invar s \<Longrightarrow> invar (snd (show_gui g s))"
proof -
  assume "invar s"
  then have "invar (GuiState_set_gui (gui_state s) g s)" (is "invar ?t")
    by (rule invar_set_gui)
  then have "invar (?t\<lparr>current_state := Some (gui_state ?t)\<rparr>)"
    by (rule invar_switch_gui)
  then show ?thesis
    by (simp add: show_gui_def)
qed

lemma run_eq:
  "run s =
     (Inr Ret_None,
      record_call Arcade_run
        (snd (show_gui (initial_gui (GuiState_setup (gui_state s) s))
           (GuiState_setup (gui_state s) s))))"
  by (simp add: run_def and_then_def core_setup_def show_gui_def)

lemma invar_step: "invar s \<Longrightarrow> invar (snd (step x s))"
  by (cases x)
    (simp_all add: core_setup_def invar_start_game change_region_def invar_show_gui
      create_sprite_def get_key_points_def player_state_get_def player_state_set_def run_eq
      on_draw_def on_key_press_def on_key_release_def on_mouse_motion_def
      on_mouse_release_def on_update_def invar_gui_setup
      split: option.splits)

lemma invar_exec: "invar s \<Longrightarrow> invar (exec xs s)"
  by (induction xs arbitrary: s) (simp_all add: invar_step)

lemma world_set_gui [simp]: "world (GuiState_set_gui r g s) = world s"
  by (simp add: GuiState_set_gui_def record_call_def split: option.splits obj.splits)

lemma world_gui_setup [simp]: "world (GuiState_setup r s) = world s"
  by (simp add: GuiState_setup_def record_call_def split: option.splits obj.splits)

lemma current_state_set_gui [simp]: "current_state (GuiState_set_gui r g s) = current_state s"
  by (simp add: GuiState_set_gui_def record_call_def split: option.splits obj.splits)

lemma current_state_gui_setup [simp]: "current_state (GuiState_setup r s) = current_state s"
  by (simp add: GuiState_setup_def record_call_def split: option.splits obj.splits)

lemma world_step_other: "x \<noteq> Start_game \<Longrightarrow> world (snd (step x s)) = world s"
  by (cases x)
    (simp_all add: core_setup_def show_gui_def run_eq world_op_defs callback_defs
      record_call_def split: option.splits)

lemma world_start_game_some: "world s = Some w \<Longrightarrow> world (snd (start_game s)) = Some w"
  by (simp add: start_game_def alloc_def record_call_def Let_def split: option.splits)

lemma world_step_some: "world s = Some w \<Longrightarrow> world (snd (step x s)) = Some w"
  by (cases "x = Start_game") (simp_all add: world_start_game_some world_step_other)

lemma world_exec_some: "world s = Some w \<Longrightarrow> world (exec xs s) = Some w"
  by (induction xs arbitrary: s) (simp_all add: world_step_some)

lemma world_exec_other: "Start_game \<notin> set xs \<Longrightarrow> world (exec xs s) = world s"
proof (induction xs arbitrary: s)
  case Nil
  show ?case by simp
next
  case (Cons a xs)
  then have "a \<noteq> Start_game" and "Start_game \<notin> set xs"
    by auto
  then show ?case
    using Cons.IH [of "snd (step a s)"] world_step_other [of a s] by simp
qed

lemma current_state_step: "current_state s \<noteq> None \<Longrightarrow> current_state (snd (step x s)) \<noteq> None"
  by (cases x)
    (simp_all add: core_setup_def show_gui_def run_eq world_op_defs callback_defs
      start_game_def alloc_def Let_def record_call_def split: option.splits)

lemma current_state_exec: "current_state s \<noteq> None \<Longrightarrow> current_state (exec xs s) \<noteq> None"
proof (induction xs arbitrary: s)
  case Nil
  then show ?case by simp
next
  case (Cons a xs)
  from Cons.prems have "current_state (snd (step a s)) \<noteq> None"
    by (rule current_state_step)
  then have "current_state (exec xs (snd (step a s))) \<noteq> None"
    by (rule Cons.IH)
  then show ?case by simp
qed

lemma frame_set_gui [simp]:
  "spec (GuiState_set_gui r g s) = spec s"
  "initial_player_state (GuiState_set_gui r g s) = initial_player_state s"
  "initial_gui (GuiState_set_gui r g s) = initial_gui s"
  by (simp_all add: GuiState_set_gui_def record_call_def split: option.splits obj.splits)

lemma frame_gui_setup [simp]:
  "spec (GuiState_setup r s) = spec s"
  "initial_player_state (GuiState_setup r s) = initial_player_state s"
  "gui_state (GuiState_setup r s) = gui_state s"
  by (simp_all add: GuiState_setup_def record_call_def split: option.splits obj.splits)

lemma frame_step:
  "spec (snd (step x s)) = spec s \<and> initial_player_state (snd (step x s)) = initial_player_state s"
  by (cases x)
    (simp_all add: core_setup_def show_gui_def run_eq world_op_defs callback_defs
      start_game_def alloc_def Let_def record_call_def split: option.splits)

lemma frame_exec:
  "spec (exec xs s) = spec s \<and> initial_player_state (exec xs s) = initial_player_state s"
  by (induction xs arbitrary: s) (simp_all add: frame_step)

lemma start_game_again:
  "start_game (snd (start_game s)) = (Inr Ret_None, snd (start_game s))"
  by (simp add: start_game_def alloc_def record_call_def Let_def split: option.splits)

lemma invar_counts:
  "invar s \<Longrightarrow> world s \<noteq> None \<Longrightarrow> ingame_state s \<noteq> None \<Longrightarrow>
     count_worlds s = 1 \<and> count_ingame_states s = 1"
  by (auto simp: invar_def)

lemma invar_world:
  "invar s \<Longrightarrow> world s = Some w \<Longrightarrow>
     count_worlds s = 1 \<and> deref s w = Some (World_obj (spec s) (initial_player_state s))"
  by (auto simp: invar_def deref_def)

lemma invar_no_world: "invar s \<Longrightarrow> world s = None \<Longrightarrow> count_worlds s = 0"
  by (auto simp: invar_def)

lemma invar_ingame:
  "invar s \<Longrightarrow> ingame_state s = Some r \<Longrightarrow>
     \<exists>w. world s = Some w \<and> deref s r = Some (InGameState_obj w (width s, height s) (ingame_gui s))"
  by (auto simp: invar_def deref_def)

lemma invar_gui:
  "invar s \<Longrightarrow> \<exists>i g. deref s (gui_state s) = Some (GuiState_obj i g)"
  by (cases "heap s ! gui_state s") (auto simp: invar_def deref_def)

lemma start_game_sets_fields:
  "world (snd (start_game s)) \<noteq> None \<and> ingame_state (snd (start_game s)) \<noteq> None
   \<and> current_state (snd (start_game s)) = ingame_state (snd (start_game s))"
  by (simp add: start_game_def alloc_def record_call_def Let_def split: option.splits)

section \<open>Properties\<close>

text \<open>
  C1. \<open>start_game\<close> constructs a world only if the field \<open>world\<close> is \<open>None\<close>, and an
  in-game state only if the field \<open>ingame_state\<close> is \<open>None\<close>, bound to the world that the
  field then holds; it ends with \<open>current_state\<close> equal to \<open>ingame_state\<close>. A second call
  right after the first changes nothing at all, and in every state reached from
  construction two calls in succession leave exactly one world and one in-game state in
  the object store.
\<close>

theorem start_game_idempotent:
  "fst (start_game s) = Inr Ret_None
   \<and> (world s = None \<longrightarrow>
        world (snd (start_game s)) = Some (length (heap s))
      \<and> deref (snd (start_game s)) (length (heap s))
          = Some (World_obj (spec s) (initial_player_state s))
      \<and> count_worlds (snd (start_game s)) = count_worlds s + 1)
   \<and> (world s \<noteq> None \<longrightarrow>
        world (snd (start_game s)) = world s
      \<and> count_worlds (snd (start_game s)) = count_worlds s)
   \<and> (ingame_state s = None \<longrightarrow>
        (\<exists>r w. ingame_state (snd (start_game s)) = Some r
           \<and> world (snd (start_game s)) = Some w
           \<and> deref (snd (start_game s)) r
               = Some (InGameState_obj w (width s, height s) (ingame_gui s)))
      \<and> count_ingame_states (snd (start_game s)) = count_ingame_states s + 1)
   \<and> (ingame_state s \<noteq> None \<longrightarrow>
        ingame_state (snd (start_game s)) = ingame_state s
      \<and> count_ingame_states (snd (start_game s)) = count_ingame_states s)
   \<and> current_state (snd (start_game s)) = ingame_state (snd (start_game s))
   \<and> ingame_state (snd (start_game s)) \<noteq> None
   \<and> start_game (snd (start_game s)) = (Inr Ret_None, snd (start_game s))
   \<and> count_worlds (snd (start_game (snd (start_game (exec xs (Core_init ig sp ps igg)))))) = 1
   \<and> count_ingame_states
        (snd (start_game (snd (start_game (exec xs (Core_init ig sp ps igg)))))) = 1"
proof -
  have local:
    "fst (start_game s) = Inr Ret_None
     \<and> (world s = None \<longrightarrow>
          world (snd (start_game s)) = Some (length (heap s))
        \<and> deref (snd (start_game s)) (length (heap s))
            = Some (World_obj (spec s) (initial_player_state s))
        \<and> count_worlds (snd (start_game s)) = count_worlds s + 1)
     \<and> (world s \<noteq> None \<longrightarrow>
          world (snd (start_game s)) = world s
        \<and> count_worlds (snd (start_game s)) = count_worlds s)
     \<and> (ingame_state s = None \<longrightarrow>
          (\<exists>r w. ingame_state (snd (start_game s)) = Some r
             \<and> world (snd (start_game s)) = Some w
             \<and> deref (snd (start_game s)) r
                 = Some (InGameState_obj w (width s, height s) (ingame_gui s)))
        \<and> count_ingame_states (snd (start_game s)) = count_ingame_states s + 1)
     \<and> (ingame_state s \<noteq> None \<longrightarrow>
          ingame_state (snd (start_game s)) = ingame_state s
        \<and> count_ingame_states (snd (start_game s)) = count_ingame_states s)
     \<and> current_state (snd (start_game s)) = ingame_state (snd (start_game s))
     \<and> ingame_state (snd (start_game s)) \<noteq> None"
    by (cases "world s"; cases "ingame_state s")
      (simp_all add: start_game_def alloc_def record_call_def Let_def deref_def
        count_worlds_def count_ingame_states_def nth_append)
  let ?t = "exec xs (Core_init ig sp ps igg)"
  have "invar ?t"
    by (simp add: invar_init invar_exec)
  then have inv: "invar (snd (start_game ?t))"
    by (rule invar_start_game)
  have "world (snd (start_game ?t)) \<noteq> None" "ingame_state (snd (start_game ?t)) \<noteq> None"
    by (simp_all add: start_game_def alloc_def record_call_def Let_def split: option.splits)
  with inv have "count_worlds (snd (start_game ?t)) = 1
      \<and> count_ingame_states (snd (start_game ?t)) = 1"
    by (rule invar_counts)
  then show ?thesis
    using local by (simp add: start_game_again)
qed

text \<open>An instance of C1 on the example.\<close>

theorem start_game_idempotent_witness:
  "world example_core = None
   \<and> ingame_state example_core = None
   \<and> world (snd (start_game example_core)) = Some 1
   \<and> ingame_state (snd (start_game example_core)) = Some 2
   \<and> current_state (snd (start_game example_core)) = Some 2
   \<and> count_worlds (snd (start_game example_core)) = 1
   \<and> count_ingame_states (snd (start_game example_core)) = 1
   \<and> snd (start_game (snd (start_game example_core))) = snd (start_game example_core)
   \<and> world (snd (start_game example_started)) = Some 1
   \<and> count_worlds (snd (start_game example_started)) = 1
   \<and> count_ingame_states (snd (start_game example_started)) = 1"
  using start_game_idempotent [where s = example_core and xs = "[]"]
    start_game_idempotent [where s = example_started and xs = "[]"]
  by (simp add: example_defs start_game_def alloc_def record_call_def deref_def
      count_worlds_def count_ingame_states_def)

text \<open>
  C2. In every state reached from construction by a sequence of operations, when
  \<open>current_state\<close> is the in-game state the field \<open>world\<close> is not \<open>None\<close>: it refers to
  the world the in-game state was constructed with.
\<close>

theorem ingame_state_has_world:
  "(\<forall>r. current_state (exec xs (Core_init ig sp ps igg)) = Some r
        \<and> ingame_state (exec xs (Core_init ig sp ps igg)) = Some r
      \<longrightarrow> world (exec xs (Core_init ig sp ps igg)) \<noteq> None)
   \<and> (\<forall>r w d g. current_state (exec xs (Core_init ig sp ps igg)) = Some r
        \<and> deref (exec xs (Core_init ig sp ps igg)) r = Some (InGameState_obj w d g)
      \<longrightarrow> world (exec xs (Core_init ig sp ps igg)) = Some w
        \<and> deref (exec xs (Core_init ig sp ps igg)) w = Some (World_obj sp ps))"
proof -
  let ?t = "exec xs (Core_init ig sp ps igg)"
  have inv: "invar ?t"
    by (simp add: invar_init invar_exec)
  have fr: "spec ?t = sp" "initial_player_state ?t = ps"
    by (simp_all add: frame_exec Core_init_def)
  have a: "world ?t \<noteq> None" if "current_state ?t = Some r" "ingame_state ?t = Some r" for r
    using inv that by (auto simp: invar_def split: option.splits)
  have b: "world ?t = Some w \<and> deref ?t w = Some (World_obj sp ps)"
    if "current_state ?t = Some r" "deref ?t r = Some (InGameState_obj w d g)" for r w d g
    using inv that fr by (auto simp: invar_def deref_def split: option.splits if_splits)
  show ?thesis
    using a b by blast
qed

text \<open>An instance of C2 on the example.\<close>

theorem ingame_state_has_world_witness:
  "current_state (exec [Show_gui (GUI 1), Start_game, On_draw] example_core) = Some 2
   \<and> ingame_state (exec [Show_gui (GUI 1), Start_game, On_draw] example_core) = Some 2
   \<and> deref (exec [Show_gui (GUI 1), Start_game, On_draw] example_core) 2
       = Some (InGameState_obj 1 (1000, 650) None)
   \<and> world (exec [Show_gui (GUI 1), Start_game, On_draw] example_core) = Some 1"
  using ingame_state_has_world
      [where xs = "[Show_gui (GUI 1), Start_game, On_draw]" and ig = "GUI 0"
        and sp = example_spec and ps = "[''hp'' \<mapsto> PyInt 10]" and igg = None]
  by (simp add: example_defs start_game_def alloc_def record_call_def deref_def
      show_gui_def GuiState_set_gui_def callback_defs)

text \<open>
  C3, as amended. In every state, \<open>change_region\<close>, \<open>create_sprite\<close>, \<open>get_key_points\<close>
  and the getter and the setter of \<open>player_state\<close> raise \<open>GameNotInitializedError\<close> exactly
  when the field \<open>world\<close> is \<open>None\<close>. Otherwise each makes the one corresponding call on
  the world, with its arguments unchanged, except that \<open>create_sprite\<close> first looks
  \<open>spec_name\<close> up in \<open>sprites\<close> of the game specification: at a name that is not a key it
  raises \<open>KeyError\<close> and makes no call, and at a key it passes the specification found.
\<close>

theorem world_operations_need_world:
  "(fst (change_region name start_location s) = Inl GameNotInitializedError
      \<longleftrightarrow> world s = None)
   \<and> (fst (create_sprite spec_name sprite_name location scr s) = Inl GameNotInitializedError
      \<longleftrightarrow> world s = None)
   \<and> (fst (get_key_points key s) = Inl GameNotInitializedError \<longleftrightarrow> world s = None)
   \<and> (fst (player_state_get s) = Inl GameNotInitializedError \<longleftrightarrow> world s = None)
   \<and> (fst (player_state_set v s) = Inl GameNotInitializedError \<longleftrightarrow> world s = None)
   \<and> (\<forall>w. world s = Some w \<longrightarrow>
          change_region name start_location s =
            (Inr Ret_None, s\<lparr>calls := calls s @ [Load_region w name start_location]\<rparr>)
        \<and> get_key_points key s =
            (Inr (Ret_of (World_get_key_points w key)),
             s\<lparr>calls := calls s @ [World_get_key_points w key]\<rparr>)
        \<and> player_state_get s =
            (Inr (Ret_of (World_get_player_state w)),
             s\<lparr>calls := calls s @ [World_get_player_state w]\<rparr>)
        \<and> player_state_set v s =
            (Inr Ret_None, s\<lparr>calls := calls s @ [World_set_player_state w v]\<rparr>)
        \<and> (\<forall>sp. sprites (spec s) spec_name = Some sp \<longrightarrow>
              create_sprite spec_name sprite_name location scr s =
                (Inr Ret_None,
                 s\<lparr>calls := calls s @ [World_create_sprite w sp sprite_name location scr]\<rparr>))
        \<and> (sprites (spec s) spec_name = None \<longrightarrow>
              create_sprite spec_name sprite_name location scr s = (Inl (KeyError spec_name), s)))"
  by (cases "world s"; cases "sprites (spec s) spec_name")
    (simp_all add: world_op_defs record_call_def)

text \<open>An instance of C3 on the example.\<close>

theorem world_operations_need_world_witness:
  "fst (get_key_points None example_core) = Inl GameNotInitializedError
   \<and> fst (create_sprite ''hero'' ''h1'' (3, 4) None example_core) = Inl GameNotInitializedError
   \<and> calls (snd (create_sprite ''hero'' ''h1'' (3, 4) (Some (Script 7)) example_started))
       = [Ingame_setup 2, World_create_sprite 1 (Sprite_spec 0) ''h1'' (3, 4) (Some (Script 7))]
   \<and> fst (player_state_get example_started) = Inr (Ret_of (World_get_player_state 1))
   \<and> snd (create_sprite ''ghost'' ''g1'' (3, 4) None example_started) = example_started"
  using world_operations_need_world
      [where s = example_core and key = None and spec_name = "''hero''" and sprite_name = "''h1''"
        and location = "(3, 4)" and scr = None]
    world_operations_need_world
      [where s = example_started and spec_name = "''hero''" and sprite_name = "''h1''"
        and location = "(3, 4)" and scr = "Some (Script 7)"]
    world_operations_need_world
      [where s = example_started and spec_name = "''ghost''" and sprite_name = "''g1''"
        and location = "(3, 4)" and scr = None]
  by (simp add: example_defs start_game_def alloc_def record_call_def world_op_defs)

text \<open>
  C3 as stated fails: after \<open>start_game\<close> the world exists, yet \<open>create_sprite\<close> with a
  name that \<open>sprites\<close> does not have raises \<open>KeyError\<close> and makes no call on the world.
\<close>

theorem create_sprite_unknown_spec_counterexample:
  "world example_started = Some 1
   \<and> fst (create_sprite ''ghost'' ''g1'' (3, 4) None example_started) = Inl (KeyError ''ghost'')
   \<and> fst (create_sprite ''ghost'' ''g1'' (3, 4) None example_started)
       \<noteq> Inl GameNotInitializedError
   \<and> calls (snd (create_sprite ''ghost'' ''g1'' (3, 4) None example_started))
       = calls example_started"
  by (simp add: example_defs start_game_def alloc_def record_call_def create_sprite_def)

text \<open>
  C4. In every state, each of \<open>on_draw\<close>, \<open>on_key_press\<close>, \<open>on_key_release\<close>,
  \<open>on_mouse_motion\<close>, \<open>on_mouse_release\<close> and \<open>on_update\<close> raises
  \<open>GameNotInitializedError\<close> exactly when \<open>current_state\<close> is \<open>None\<close>. Otherwise it passes
  its arguments unchanged to the view of the active state (\<open>on_draw\<close>, after clearing the
  window), to its controller (the four input callbacks) or to the state itself
  (\<open>on_update\<close>).
\<close>

theorem callbacks_need_current_state:
  "(fst (on_draw s) = Inl GameNotInitializedError \<longleftrightarrow> current_state s = None)
   \<and> (fst (on_key_press symbol modifiers s) = Inl GameNotInitializedError
        \<longleftrightarrow> current_state s = None)
   \<and> (fst (on_key_release symbol modifiers s) = Inl GameNotInitializedError
        \<longleftrightarrow> current_state s = None)
   \<and> (fst (on_mouse_motion x y dx dy s) = Inl GameNotInitializedError
        \<longleftrightarrow> current_state s = None)
   \<and> (fst (on_mouse_release x y button modifiers s) = Inl GameNotInitializedError
        \<longleftrightarrow> current_state s = None)
   \<and> (fst (on_update delta_time s) = Inl GameNotInitializedError \<longleftrightarrow> current_state s = None)
   \<and> (\<forall>c. current_state s = Some c \<longrightarrow>
          on_draw s = (Inr Ret_None, s\<lparr>calls := calls s @ [Window_clear, View_on_draw c]\<rparr>)
        \<and> on_key_press symbol modifiers s =
            (Inr Ret_None, s\<lparr>calls := calls s @ [Controller_on_key_press c symbol modifiers]\<rparr>)
        \<and> on_key_release symbol modifiers s =
            (Inr Ret_None, s\<lparr>calls := calls s @ [Controller_on_key_release c symbol modifiers]\<rparr>)
        \<and> on_mouse_motion x y dx dy s =
            (Inr Ret_None, s\<lparr>calls := calls s @ [Controller_on_mouse_motion c x y dx dy]\<rparr>)
        \<and> on_mouse_release x y button modifiers s =
            (Inr Ret_None,
             s\<lparr>calls := calls s @ [Controller_on_mouse_release c x y button modifiers]\<rparr>)
        \<and> on_update delta_time s =
            (Inr Ret_None, s\<lparr>calls := calls s @ [State_on_update c delta_time]\<rparr>))"
  by (cases "current_state s") (simp_all add: callback_defs record_call_def)

text \<open>An instance of C4 on the example.\<close>

theorem callbacks_need_current_state_witness:
  "fst (on_draw example_core) = Inl GameNotInitializedError
   \<and> fst (on_update (1 / 60) example_core) = Inl GameNotInitializedError
   \<and> current_state example_started = Some 2
   \<and> calls (snd (on_draw example_started)) = [Ingame_setup 2, Window_clear, View_on_draw 2]
   \<and> calls (snd (on_mouse_release 10 20 1 0 example_started)) =
       [Ingame_setup 2, Controller_on_mouse_release 2 10 20 1 0]"
  using callbacks_need_current_state [where s = example_core and delta_time = "1 / 60"]
    callbacks_need_current_state
      [where s = example_started and x = 10 and y = 20 and button = 1 and modifiers = 0]
  by (simp add: example_defs start_game_def alloc_def record_call_def)

text \<open>
  C5. In every state reached from construction, \<open>show_gui g\<close> makes the GUI state the
  active state and calls \<open>set_gui g\<close> on it, after which the view and the controller of
  the active state are those of \<open>g\<close>; and \<open>start_game\<close> makes the in-game state the active
  state, whose view and controller are those of the world that the field \<open>world\<close> holds,
  the only world in the object store.
\<close>

theorem active_state_after_switch:
  "current_state (snd (show_gui g (exec xs (Core_init ig sp ps igg))))
     = Some (gui_state (exec xs (Core_init ig sp ps igg)))
   \<and> calls (snd (show_gui g (exec xs (Core_init ig sp ps igg))))
     = calls (exec xs (Core_init ig sp ps igg))
         @ [Set_gui (gui_state (exec xs (Core_init ig sp ps igg))) g]
   \<and> state_view (snd (show_gui g (exec xs (Core_init ig sp ps igg))))
       (gui_state (exec xs (Core_init ig sp ps igg))) = Some (Gui_view g)
   \<and> state_controller (snd (show_gui g (exec xs (Core_init ig sp ps igg))))
       (gui_state (exec xs (Core_init ig sp ps igg))) = Some (Gui_controller g)
   \<and> (\<exists>c w. current_state (snd (start_game (exec xs (Core_init ig sp ps igg)))) = Some c
        \<and> world (snd (start_game (exec xs (Core_init ig sp ps igg)))) = Some w
        \<and> state_view (snd (start_game (exec xs (Core_init ig sp ps igg)))) c
            = Some (Ingame_view w)
        \<and> state_controller (snd (start_game (exec xs (Core_init ig sp ps igg)))) c
            = Some (Ingame_controller w)
        \<and> deref (snd (start_game (exec xs (Core_init ig sp ps igg)))) w
            = Some (World_obj sp ps)
        \<and> count_worlds (snd (start_game (exec xs (Core_init ig sp ps igg)))) = 1)"
proof -
  let ?t = "exec xs (Core_init ig sp ps igg)"
  let ?u = "snd (start_game ?t)"
  have inv: "invar ?t"
    by (simp add: invar_init invar_exec)
  then obtain i g0 where gui: "deref ?t (gui_state ?t) = Some (GuiState_obj i g0)"
    using invar_gui by blast
  then have shown:
    "current_state (snd (show_gui g ?t)) = Some (gui_state ?t)
     \<and> calls (snd (show_gui g ?t)) = calls ?t @ [Set_gui (gui_state ?t) g]
     \<and> state_view (snd (show_gui g ?t)) (gui_state ?t) = Some (Gui_view g)
     \<and> state_controller (snd (show_gui g ?t)) (gui_state ?t) = Some (Gui_controller g)"
    by (simp add: show_gui_def GuiState_set_gui_def record_call_def state_view_def
        state_controller_def deref_def split: if_splits)
  have inv': "invar ?u"
    using inv by (rule invar_start_game)
  have "spec ?u = spec ?t \<and> initial_player_state ?u = initial_player_state ?t"
    using frame_step [of Start_game ?t] by simp
  then have fr: "spec ?u = sp" "initial_player_state ?u = ps"
    by (simp_all add: frame_exec Core_init_def)
  obtain c where c: "ingame_state ?u = Some c" "current_state ?u = Some c"
    using start_game_sets_fields [of ?t] by auto
  then obtain w where w: "world ?u = Some w"
    "deref ?u c = Some (InGameState_obj w (width ?u, height ?u) (ingame_gui ?u))"
    using invar_ingame [OF inv'] by blast
  have "count_worlds ?u = 1 \<and> deref ?u w = Some (World_obj sp ps)"
    using invar_world [OF inv' w(1)] fr by simp
  then have "current_state ?u = Some c \<and> world ?u = Some w
      \<and> state_view ?u c = Some (Ingame_view w)
      \<and> state_controller ?u c = Some (Ingame_controller w)
      \<and> deref ?u w = Some (World_obj sp ps) \<and> count_worlds ?u = 1"
    using c w by (simp add: state_view_def state_controller_def)
  then show ?thesis
    using shown by blast
qed

text \<open>An instance of C5 on the example.\<close>

theorem active_state_after_switch_witness:
  "state_view (snd (show_gui (GUI 5) (exec [Start_game, On_draw] example_core))) 0
     = Some (Gui_view (GUI 5))
   \<and> state_controller (snd (show_gui (GUI 5) (exec [Start_game, On_draw] example_core))) 0
     = Some (Gui_controller (GUI 5))
   \<and> current_state (snd (start_game (exec [Show_gui (GUI 5)] example_core))) = Some 2
   \<and> state_view (snd (start_game (exec [Show_gui (GUI 5)] example_core))) 2
     = Some (Ingame_view 1)
   \<and> world (snd (start_game (exec [Show_gui (GUI 5)] example_core))) = Some 1"
  using active_state_after_switch
      [where xs = "[Start_game, On_draw]" and g = "GUI 5" and ig = "GUI 0"
        and sp = example_spec and ps = "[''hp'' \<mapsto> PyInt 10]" and igg = None]
    active_state_after_switch
      [where xs = "[Show_gui (GUI 5)]" and g = "GUI 5" and ig = "GUI 0"
        and sp = example_spec and ps = "[''hp'' \<mapsto> PyInt 10]" and igg = None]
  by (simp add: example_defs start_game_def alloc_def record_call_def deref_def
      show_gui_def GuiState_set_gui_def callback_defs state_view_def state_controller_def)

text \<open>
  C6. The field \<open>world\<close> is \<open>None\<close> after construction and after any sequence of
  operations without \<open>start_game\<close>, and no world exists then. The first \<open>start_game\<close>
  creates the world, and after any further operations \<open>ys\<close> (further calls of
  \<open>start_game\<close> among them) the field still refers to that same object, the only world
  ever created. No operation takes a state whose field \<open>world\<close> is set to one where it
  is \<open>None\<close> or refers to another object.
\<close>

theorem world_created_once:
  "world (Core_init ig sp ps igg) = None
   \<and> (Start_game \<notin> set xs \<longrightarrow>
        world (exec xs (Core_init ig sp ps igg)) = None
      \<and> count_worlds (exec xs (Core_init ig sp ps igg)) = 0
      \<and> (\<exists>w. world (snd (start_game (exec xs (Core_init ig sp ps igg)))) = Some w
           \<and> deref (snd (start_game (exec xs (Core_init ig sp ps igg)))) w
               = Some (World_obj sp ps)
           \<and> world (exec ys (snd (start_game (exec xs (Core_init ig sp ps igg))))) = Some w
           \<and> deref (exec ys (snd (start_game (exec xs (Core_init ig sp ps igg))))) w
               = Some (World_obj sp ps)
           \<and> count_worlds (exec ys (snd (start_game (exec xs (Core_init ig sp ps igg))))) = 1))
   \<and> (\<forall>w. world s = Some w \<longrightarrow> world (snd (step x s)) = Some w)"
proof -
  let ?t = "exec xs (Core_init ig sp ps igg)"
  let ?u = "snd (start_game ?t)"
  let ?v = "exec ys ?u"
  have init: "world (Core_init ig sp ps igg) = None"
    by (simp add: Core_init_def)
  have inv: "invar ?t"
    by (simp add: invar_init invar_exec)
  have inv_u: "invar ?u"
    using inv by (rule invar_start_game)
  have inv_v: "invar ?v"
    using inv_u by (rule invar_exec)
  have "spec ?u = spec ?t \<and> initial_player_state ?u = initial_player_state ?t"
    using frame_step [of Start_game ?t] by simp
  then have fr_u: "spec ?u = sp" "initial_player_state ?u = ps"
    by (simp_all add: frame_exec Core_init_def)
  then have fr_v: "spec ?v = sp" "initial_player_state ?v = ps"
    by (simp_all add: frame_exec)
  obtain w where w: "world ?u = Some w"
    using start_game_sets_fields [of ?t] by auto
  then have wv: "world ?v = Some w"
    by (rule world_exec_some)
  have after:
    "world ?u = Some w \<and> deref ?u w = Some (World_obj sp ps)
     \<and> world ?v = Some w \<and> deref ?v w = Some (World_obj sp ps) \<and> count_worlds ?v = 1"
    using invar_world [OF inv_u w] invar_world [OF inv_v wv] w wv fr_u fr_v by simp
  have before: "world ?t = None \<and> count_worlds ?t = 0" if "Start_game \<notin> set xs"
  proof -
    have "world ?t = None"
      using that init by (simp add: world_exec_other)
    then show ?thesis
      using inv by (simp add: invar_no_world)
  qed
  show ?thesis
    using init before after world_step_some by blast
qed

text \<open>An instance of C6 on the example.\<close>

theorem world_created_once_witness:
  "world (exec [Show_gui (GUI 1), On_draw, Change_region ''town'' ''gate''] example_core) = None
   \<and> world (snd (start_game
        (exec [Show_gui (GUI 1), On_draw, Change_region ''town'' ''gate''] example_core)))
      = Some 1
   \<and> world (exec [Start_game, Show_gui (GUI 2), Run, Start_game]
        (snd (start_game
          (exec [Show_gui (GUI 1), On_draw, Change_region ''town'' ''gate''] example_core))))
      = Some 1
   \<and> count_worlds (exec [Start_game, Show_gui (GUI 2), Run, Start_game]
        (snd (start_game
          (exec [Show_gui (GUI 1), On_draw, Change_region ''town'' ''gate''] example_core))))
      = 1
   \<and> world example_started = Some 1
   \<and> world (snd (step Start_game example_started)) = Some 1
   \<and> world (snd (step (Show_gui (GUI 2)) example_started)) = Some 1"
  using world_created_once
      [where xs = "[Show_gui (GUI 1), On_draw, Change_region ''town'' ''gate'']"
        and ys = "[Start_game, Show_gui (GUI 2), Run, Start_game]" and ig = "GUI 0"
        and sp = example_spec and ps = "[''hp'' \<mapsto> PyInt 10]" and igg = None
        and s = example_started and x = Start_game]
    world_created_once
      [where xs = "[]" and ys = "[]" and ig = "GUI 0"
        and sp = example_spec and ps = "[''hp'' \<mapsto> PyInt 10]" and igg = None
        and s = example_started and x = "Show_gui (GUI 2)"]
  by (simp add: example_defs start_game_def alloc_def record_call_def deref_def
      show_gui_def GuiState_set_gui_def GuiState_setup_def core_setup_def run_def and_then_def
      callback_defs world_op_defs count_worlds_def)

text \<open>
  C7. The window of every \<open>Core\<close> is constructed with width 1000, height 650 and the
  title "OSSU Game Project", whatever the arguments of the constructor.
\<close>

theorem window_parameters_fixed:
  "width (Core_init ig sp ps igg) = 1000
   \<and> height (Core_init ig sp ps igg) = 650
   \<and> title (Core_init ig sp ps igg) = ''OSSU Game Project''"
  by (simp add: Core_init_def SCREEN_WIDTH_def SCREEN_HEIGHT_def SCREEN_TITLE_def)

text \<open>
  C8. Whenever \<open>change_region\<close>, \<open>create_sprite\<close>, \<open>get_key_points\<close>, the getter or the
  setter of \<open>player_state\<close>, or one of the six callbacks raises
  \<open>GameNotInitializedError\<close>, the state after the call is the state before it: every
  field of \<open>Core\<close>, the object store and the trace of calls.
\<close>

theorem not_initialized_error_is_atomic:
  "(fst (change_region name start_location s) = Inl GameNotInitializedError
      \<longrightarrow> snd (change_region name start_location s) = s)
   \<and> (fst (create_sprite spec_name sprite_name location scr s) = Inl GameNotInitializedError
      \<longrightarrow> snd (create_sprite spec_name sprite_name location scr s) = s)
   \<and> (fst (get_key_points key s) = Inl GameNotInitializedError
      \<longrightarrow> snd (get_key_points key s) = s)
   \<and> (fst (player_state_get s) = Inl GameNotInitializedError \<longrightarrow> snd (player_state_get s) = s)
   \<and> (fst (player_state_set v s) = Inl GameNotInitializedError
      \<longrightarrow> snd (player_state_set v s) = s)
   \<and> (fst (on_draw s) = Inl GameNotInitializedError \<longrightarrow> snd (on_draw s) = s)
   \<and> (fst (on_key_press symbol modifiers s) = Inl GameNotInitializedError
      \<longrightarrow> snd (on_key_press symbol modifiers s) = s)
   \<and> (fst (on_key_release symbol modifiers s) = Inl GameNotInitializedError
      \<longrightarrow> snd (on_key_release symbol modifiers s) = s)
   \<and> (fst (on_mouse_motion x y dx dy s) = Inl GameNotInitializedError
      \<longrightarrow> snd (on_mouse_motion x y dx dy s) = s)
   \<and> (fst (on_mouse_release x y button modifiers s) = Inl GameNotInitializedError
      \<longrightarrow> snd (on_mouse_release x y button modifiers s) = s)
   \<and> (fst (on_update delta_time s) = Inl GameNotInitializedError
      \<longrightarrow> snd (on_update delta_time s) = s)"
  by (simp add: world_op_defs callback_defs split: option.splits)

text \<open>An instance of C8 on the example.\<close>

theorem not_initialized_error_is_atomic_witness:
  "fst (change_region ''town'' ''gate'' example_core) = Inl GameNotInitializedError
   \<and> snd (change_region ''town'' ''gate'' example_core) = example_core
   \<and> fst (on_draw example_core) = Inl GameNotInitializedError
   \<and> snd (on_draw example_core) = example_core
   \<and> fst (on_key_press 65 0 (snd (change_region ''town'' ''gate'' (snd (show_gui (GUI 1) example_core)))))
       = Inr Ret_None
   \<and> fst (change_region ''town'' ''gate'' (snd (show_gui (GUI 1) example_core)))
       = Inl GameNotInitializedError
   \<and> current_state (snd (change_region ''town'' ''gate'' (snd (show_gui (GUI 1) example_core))))
       = Some 0"
  using not_initialized_error_is_atomic
      [where s = example_core and name = "''town''" and start_location = "''gate''"]
    not_initialized_error_is_atomic
      [where s = "snd (show_gui (GUI 1) example_core)" and name = "''town''"
        and start_location = "''gate''"]
  by (simp add: example_defs world_op_defs callback_defs show_gui_def GuiState_set_gui_def
      deref_def record_call_def)

text \<open>
  C9. After a call of \<open>show_gui\<close> or of \<open>start_game\<close>, in any state, \<open>current_state\<close> is
  not \<open>None\<close>, and it is not \<open>None\<close> after any sequence of operations that follows; so
  none of the six callbacks raises \<open>GameNotInitializedError\<close> from then on.
\<close>

theorem current_state_stays_set:
  assumes "first = Show_gui g \<or> first = Start_game"
  shows "current_state (snd (step first s)) \<noteq> None
   \<and> current_state (exec xs (snd (step first s))) \<noteq> None
   \<and> fst (on_draw (exec xs (snd (step first s)))) \<noteq> Inl GameNotInitializedError
   \<and> fst (on_key_press symbol modifiers (exec xs (snd (step first s))))
       \<noteq> Inl GameNotInitializedError
   \<and> fst (on_key_release symbol modifiers (exec xs (snd (step first s))))
       \<noteq> Inl GameNotInitializedError
   \<and> fst (on_mouse_motion x y dx dy (exec xs (snd (step first s))))
       \<noteq> Inl GameNotInitializedError
   \<and> fst (on_mouse_release x y button modifiers (exec xs (snd (step first s))))
       \<noteq> Inl GameNotInitializedError
   \<and> fst (on_update delta_time (exec xs (snd (step first s)))) \<noteq> Inl GameNotInitializedError"
proof -
  have first: "current_state (snd (step first s)) \<noteq> None"
    using assms
    by (auto simp: show_gui_def start_game_def alloc_def record_call_def Let_def
        split: option.splits)
  then have later: "current_state (exec xs (snd (step first s))) \<noteq> None"
    by (rule current_state_exec)
  then obtain c where "current_state (exec xs (snd (step first s))) = Some c"
    by auto
  then show ?thesis
    using first by (simp add: callback_defs)
qed

text \<open>An instance of C9 on the example.\<close>

theorem current_state_stays_set_witness:
  "current_state
     (exec [Change_region ''town'' ''gate'', Setup, On_draw, Start_game, Show_gui (GUI 3)]
        (snd (step (Show_gui (GUI 1)) example_core))) = Some 0
   \<and> fst (on_draw
        (exec [Change_region ''town'' ''gate'', Setup, On_draw, Start_game, Show_gui (GUI 3)]
           (snd (step (Show_gui (GUI 1)) example_core)))) = Inr Ret_None
   \<and> current_state example_core = None
   \<and> current_state
       (exec [Get_key_points None, Setup, On_update (1 / 60)] (snd (step Start_game example_core)))
     = Some 2
   \<and> fst (on_update (1 / 60)
        (exec [Get_key_points None, Setup, On_update (1 / 60)]
           (snd (step Start_game example_core)))) = Inr Ret_None"
  using current_state_stays_set
      [where first = "Show_gui (GUI 1)" and g = "GUI 1" and s = example_core
        and xs = "[Change_region ''town'' ''gate'', Setup, On_draw, Start_game, Show_gui (GUI 3)]"]
    current_state_stays_set
      [where first = Start_game and g = "GUI 1" and s = example_core
        and xs = "[Get_key_points None, Setup, On_update (1 / 60)]" and delta_time = "1 / 60"]
  by (simp add: example_defs world_op_defs callback_defs show_gui_def GuiState_set_gui_def
      GuiState_setup_def core_setup_def deref_def record_call_def start_game_def alloc_def)

text \<open>
  C10. \<open>show_gui\<close> has no precondition: in every state it returns, never raising
  \<open>GameNotInitializedError\<close>, having called \<open>set_gui\<close> on the GUI state and made it the
  active state. That holds in particular right after construction, where \<open>world\<close>,
  \<open>ingame_state\<close> and \<open>current_state\<close> are \<open>None\<close> and no call has been made yet.
\<close>

theorem show_gui_always_succeeds:
  "fst (show_gui g s) = Inr Ret_None
   \<and> fst (show_gui g s) \<noteq> Inl GameNotInitializedError
   \<and> current_state (snd (show_gui g s)) = Some (gui_state s)
   \<and> calls (snd (show_gui g s)) = calls s @ [Set_gui (gui_state s) g]
   \<and> world (Core_init ig sp ps igg) = None
   \<and> ingame_state (Core_init ig sp ps igg) = None
   \<and> current_state (Core_init ig sp ps igg) = None
   \<and> calls (Core_init ig sp ps igg) = []
   \<and> fst (show_gui g (Core_init ig sp ps igg)) = Inr Ret_None
   \<and> current_state (snd (show_gui g (Core_init ig sp ps igg)))
       = Some (gui_state (Core_init ig sp ps igg))
   \<and> calls (snd (show_gui g (Core_init ig sp ps igg)))
       = [Set_gui (gui_state (Core_init ig sp ps igg)) g]"
  by (simp add: show_gui_def GuiState_set_gui_def record_call_def deref_def Core_init_def
      split: option.splits obj.splits)

end
